theory Spec2Isabelle
  imports Complex_Main
begin

section \<open>The timer model of \<^verbatim>\<open>timer_app.py\<close>\<close>

text \<open>
  The class \<^verbatim>\<open>TimerModel\<close> is embedded as a record and its methods as functions
  that take the model and return the updated one. Python floats (the \<^verbatim>\<open>now\<close>
  arguments, \<^verbatim>\<open>_start_perf\<close>, \<^verbatim>\<open>_accumulated_elapsed\<close> and the snapshot's seconds)
  are read as exact reals: rounding is not modelled. \<^verbatim>\<open>_target_seconds\<close> is a Python
  \<^verbatim>\<open>int\<close>, hence an unbounded \<open>int\<close>. No method of the class raises, so no result
  type carries an error.
\<close>

datatype TimerMode = UP | DOWN

datatype TimerState = IDLE | RUNNING | PAUSED | FINISHED

record TimerSnapshot =
  snap_mode :: TimerMode
  snap_state :: TimerState
  elapsed_seconds :: real
  remaining_seconds :: "real option"

record TimerModel =
  mode :: TimerMode
  state :: TimerState
  target_seconds :: int
  start_perf :: "real option"
  accumulated_elapsed :: real

text \<open>\<^verbatim>\<open>TimerModel.__init__\<close>\<close>

definition TimerModel_init :: TimerModel where
  "TimerModel_init =
     \<lparr>mode = UP, state = IDLE, target_seconds = 5 * 60, start_perf = None,
      accumulated_elapsed = 0\<rparr>"

text \<open>\<^verbatim>\<open>TimerModel.reset\<close>\<close>

definition reset :: "TimerModel \<Rightarrow> TimerModel" where
  "reset m = m\<lparr>state := IDLE, start_perf := None, accumulated_elapsed := 0\<rparr>"

text \<open>\<^verbatim>\<open>TimerModel.set_mode\<close>\<close>

definition set_mode :: "TimerMode \<Rightarrow> TimerModel \<Rightarrow> TimerModel" where
  "set_mode md m = (if md = mode m then m else reset (m\<lparr>mode := md\<rparr>))"

text \<open>\<^verbatim>\<open>TimerModel.set_target_seconds\<close>; \<^verbatim>\<open>int(seconds)\<close> is the identity on an \<^verbatim>\<open>int\<close>.\<close>

definition set_target_seconds :: "int \<Rightarrow> TimerModel \<Rightarrow> TimerModel" where
  "set_target_seconds seconds m =
     (let seconds' = max 0 seconds;
          m1 = m\<lparr>target_seconds := seconds'\<rparr>
      in if mode m1 = DOWN \<and> (state m1 = IDLE \<or> state m1 = FINISHED)
         then m1\<lparr>accumulated_elapsed := 0\<rparr>
         else m1)"

text \<open>\<^verbatim>\<open>TimerModel.start\<close>\<close>

definition start :: "real \<Rightarrow> TimerModel \<Rightarrow> TimerModel" where
  "start now m =
     (if state m = RUNNING then m
      else
        (let m1 = (if state m = IDLE \<or> state m = FINISHED
                   then m\<lparr>accumulated_elapsed := 0\<rparr> else m)
         in m1\<lparr>start_perf := Some now, state := RUNNING\<rparr>))"

text \<open>\<^verbatim>\<open>TimerModel.pause\<close>\<close>

definition pause :: "real \<Rightarrow> TimerModel \<Rightarrow> TimerModel" where
  "pause now m =
     (if state m \<noteq> RUNNING then m
      else
        (let m1 = (case start_perf m of
                     Some s \<Rightarrow> m\<lparr>accumulated_elapsed := accumulated_elapsed m + (now - s)\<rparr>
                   | None \<Rightarrow> m)
         in m1\<lparr>start_perf := None, state := PAUSED\<rparr>))"

text \<open>\<^verbatim>\<open>TimerModel.resume\<close>\<close>

definition resume :: "real \<Rightarrow> TimerModel \<Rightarrow> TimerModel" where
  "resume now m =
     (if state m \<noteq> PAUSED then m
      else m\<lparr>start_perf := Some now, state := RUNNING\<rparr>)"

text \<open>
  The first statement of \<^verbatim>\<open>TimerModel.snapshot\<close>: the banked seconds, plus the
  running interval when the state is \<^verbatim>\<open>RUNNING\<close> and \<^verbatim>\<open>_start_perf\<close> is set.
\<close>

definition elapsed_at :: "real \<Rightarrow> TimerModel \<Rightarrow> real" where
  "elapsed_at now m =
     (case start_perf m of
        Some s \<Rightarrow> if state m = RUNNING then accumulated_elapsed m + (now - s)
                  else accumulated_elapsed m
      | None \<Rightarrow> accumulated_elapsed m)"

text \<open>
  \<^verbatim>\<open>TimerModel.snapshot\<close> returns the snapshot and may change the model (the
  transition to \<^verbatim>\<open>FINISHED\<close>), so the embedding returns the pair of both.
\<close>

definition snapshot :: "real \<Rightarrow> TimerModel \<Rightarrow> TimerModel \<times> TimerSnapshot" where
  "snapshot now m =
     (let elapsed = elapsed_at now m in
      if mode m = UP
      then (m, \<lparr>snap_mode = mode m, snap_state = state m, elapsed_seconds = elapsed,
                remaining_seconds = None\<rparr>)
      else
        (let remaining = real_of_int (target_seconds m) - elapsed in
         if remaining \<le> 0
         then
           (let m1 = (if state m = RUNNING
                      then m\<lparr>state := FINISHED, start_perf := None\<rparr> else m)
            in (m1, \<lparr>snap_mode = mode m1, snap_state = state m1,
                     elapsed_seconds = elapsed, remaining_seconds = Some 0\<rparr>))
         else (m, \<lparr>snap_mode = mode m, snap_state = state m, elapsed_seconds = elapsed,
                   remaining_seconds = Some remaining\<rparr>)))"

subsection \<open>Sequences of calls\<close>

text \<open>
  A call of one method of the model, as the presentation layer makes them, and the
  model after a sequence of calls. The snapshot a \<open>Snapshot\<close> call returns is dropped
  here: only its effect on the model is kept.
\<close>

datatype op =
    SetMode TimerMode
  | SetTargetSeconds int
  | Start real
  | Pause real
  | Resume real
  | Reset
  | Snapshot real

fun apply_op :: "op \<Rightarrow> TimerModel \<Rightarrow> TimerModel" where
  "apply_op (SetMode md) m = set_mode md m"
| "apply_op (SetTargetSeconds n) m = set_target_seconds n m"
| "apply_op (Start now) m = start now m"
| "apply_op (Pause now) m = pause now m"
| "apply_op (Resume now) m = resume now m"
| "apply_op Reset m = reset m"
| "apply_op (Snapshot now) m = fst (snapshot now m)"

fun run :: "op list \<Rightarrow> TimerModel \<Rightarrow> TimerModel" where
  "run [] m = m"
| "run (c # cs) m = run cs (apply_op c m)"

text \<open>The calls that take a timestamp and never reset: start, pause, resume, snapshot.\<close>

fun clock_call :: "op \<Rightarrow> bool" where
  "clock_call (Start now) = True"
| "clock_call (Pause now) = True"
| "clock_call (Resume now) = True"
| "clock_call (Snapshot now) = True"
| "clock_call c = False"

fun is_snapshot :: "op \<Rightarrow> bool" where
  "is_snapshot (Snapshot now) = True"
| "is_snapshot c = False"

fun time_of :: "op \<Rightarrow> real" where
  "time_of (Start now) = now"
| "time_of (Pause now) = now"
| "time_of (Resume now) = now"
| "time_of (Snapshot now) = now"
| "time_of c = 0"

text \<open>
  The time spent in the state \<^verbatim>\<open>RUNNING\<close>, measured from outside: the model is in
  state \<open>state m\<close> from the instant \<open>t\<close> of the last call until the instant of the next
  call (or until the final \<open>now\<close>), and that stretch counts when the state is
  \<^verbatim>\<open>RUNNING\<close>. Nothing here reads \<^verbatim>\<open>_start_perf\<close> or \<^verbatim>\<open>_accumulated_elapsed\<close>.
\<close>

fun running_time :: "TimerModel \<Rightarrow> real \<Rightarrow> op list \<Rightarrow> real \<Rightarrow> real" where
  "running_time m t [] now = (if state m = RUNNING then now - t else 0)"
| "running_time m t (c # cs) now =
     (if state m = RUNNING then time_of c - t else 0)
       + running_time (apply_op c m) (time_of c) cs now"

text \<open>No call of the sequence leaves the model in the state \<^verbatim>\<open>FINISHED\<close>.\<close>

fun no_auto_finish :: "TimerModel \<Rightarrow> op list \<Rightarrow> bool" where
  "no_auto_finish m [] = True"
| "no_auto_finish m (c # cs) =
     (state (apply_op c m) \<noteq> FINISHED \<and> no_auto_finish (apply_op c m) cs)"

text \<open>The invariant of section 3 of the specification.\<close>

definition start_iff_running :: "TimerModel \<Rightarrow> bool" where
  "start_iff_running m = ((start_perf m \<noteq> None) = (state m = RUNNING))"

text \<open>
  What holds of a model from a reset on, as long as only clock calls are made and none
  finishes a countdown: the invariant above, a state other than \<^verbatim>\<open>FINISHED\<close>, and
  nothing accumulated while still idle.
\<close>

definition fresh_or_timing :: "TimerModel \<Rightarrow> bool" where
  "fresh_or_timing m =
     (start_iff_running m \<and> state m \<noteq> FINISHED \<and>
      (state m \<noteq> IDLE \<or> accumulated_elapsed m = 0))"

section \<open>Properties\<close>

lemmas timer_defs =
  reset_def set_mode_def set_target_seconds_def start_def pause_def resume_def
  snapshot_def elapsed_at_def

text \<open>
  C6. \<open>set_mode\<close> with the current mode changes nothing; with a different mode it
  stores the mode and resets: state \<^verbatim>\<open>IDLE\<close>, no start instant, nothing
  accumulated, whatever the state was; the target is kept.
\<close>

theorem set_mode_same_or_full_reset:
  "set_mode (mode m) m = m \<and>
   (md \<noteq> mode m \<longrightarrow>
      set_mode md m =
        m\<lparr>mode := md, state := IDLE, start_perf := None, accumulated_elapsed := 0\<rparr>)"
  by (simp add: set_mode_def reset_def)

theorem set_mode_same_or_full_reset_witness:
  "DOWN \<noteq> mode (start 2 TimerModel_init) \<and>
   set_mode DOWN (start 2 TimerModel_init) =
     \<lparr>mode = DOWN, state = IDLE, target_seconds = 300, start_perf = None,
      accumulated_elapsed = 0\<rparr>"
  using set_mode_same_or_full_reset [of "start 2 TimerModel_init" DOWN]
  by (simp add: start_def TimerModel_init_def)

text \<open>
  C7. \<open>set_target_seconds\<close> stores the clamped target and keeps mode, state and
  start instant. It zeroes the accumulated seconds when the mode is \<^verbatim>\<open>DOWN\<close> and
  the state is \<^verbatim>\<open>IDLE\<close> or \<^verbatim>\<open>FINISHED\<close>, and keeps them in every other case, in
  particular when the state is \<^verbatim>\<open>RUNNING\<close> or \<^verbatim>\<open>PAUSED\<close>.
\<close>

theorem set_target_seconds_frame:
  "set_target_seconds n m =
     m\<lparr>target_seconds := max 0 n,
       accumulated_elapsed :=
         (if mode m = DOWN \<and> (state m = IDLE \<or> state m = FINISHED) then 0
          else accumulated_elapsed m)\<rparr> \<and>
   (state m = RUNNING \<or> state m = PAUSED \<longrightarrow>
      set_target_seconds n m = m\<lparr>target_seconds := max 0 n\<rparr>)"
  by (auto simp add: set_target_seconds_def Let_def)

theorem set_target_seconds_frame_witness:
  "state (pause 3 (start 0 (set_mode DOWN TimerModel_init))) = PAUSED \<and>
   set_target_seconds 7 (pause 3 (start 0 (set_mode DOWN TimerModel_init))) =
     \<lparr>mode = DOWN, state = PAUSED, target_seconds = 7, start_perf = None,
      accumulated_elapsed = 3\<rparr> \<and>
   set_target_seconds 7 (fst (snapshot 1 (pause 3 (start (-400) (set_mode DOWN TimerModel_init))))) =
     \<lparr>mode = DOWN, state = PAUSED, target_seconds = 7, start_perf = None,
      accumulated_elapsed = 403\<rparr> \<and>
   fst (snapshot 500 (resume 4 (pause 3 (start 0 (set_mode DOWN TimerModel_init))))) =
     \<lparr>mode = DOWN, state = FINISHED, target_seconds = 300, start_perf = None,
      accumulated_elapsed = 3\<rparr> \<and>
   set_target_seconds 7
       (fst (snapshot 500 (resume 4 (pause 3 (start 0 (set_mode DOWN TimerModel_init)))))) =
     \<lparr>mode = DOWN, state = FINISHED, target_seconds = 7, start_perf = None,
      accumulated_elapsed = 0\<rparr>"
  using set_target_seconds_frame [of 7 "pause 3 (start 0 (set_mode DOWN TimerModel_init))"]
    set_target_seconds_frame [of 7 "fst (snapshot 1 (pause 3 (start (-400) (set_mode DOWN TimerModel_init))))"]
    set_target_seconds_frame
      [of 7 "fst (snapshot 500 (resume 4 (pause 3 (start 0 (set_mode DOWN TimerModel_init)))))"]
  by (simp add: timer_defs TimerModel_init_def)

text \<open>
  C8. No mutator can fail: each is a function defined on every model and argument.
  \<open>set_target_seconds\<close> stores \<open>max 0 n\<close>, which is never negative, and the calls that
  do not apply return the model as it was: \<open>start\<close> when \<^verbatim>\<open>RUNNING\<close>, \<open>pause\<close> when
  not \<^verbatim>\<open>RUNNING\<close>, \<open>resume\<close> when not \<^verbatim>\<open>PAUSED\<close>.
\<close>

theorem mutators_total_and_noop:
  "target_seconds (set_target_seconds n m) = max 0 n \<and>
   0 \<le> target_seconds (set_target_seconds n m) \<and>
   (state m = RUNNING \<longrightarrow> start now m = m) \<and>
   (state m \<noteq> RUNNING \<longrightarrow> pause now m = m) \<and>
   (state m \<noteq> PAUSED \<longrightarrow> resume now m = m)"
  by (simp add: set_target_seconds_def start_def pause_def resume_def Let_def)

theorem mutators_total_and_noop_witness:
  "target_seconds (set_target_seconds (-9) TimerModel_init) = 0 \<and>
   state (start 1 TimerModel_init) = RUNNING \<and>
   start 4 (start 1 TimerModel_init) = start 1 TimerModel_init \<and>
   resume 4 (start 1 TimerModel_init) = start 1 TimerModel_init \<and>
   state TimerModel_init \<noteq> RUNNING \<and>
   pause 4 TimerModel_init = TimerModel_init"
  using mutators_total_and_noop [of "-9" TimerModel_init 4]
    mutators_total_and_noop [of 0 "start 1 TimerModel_init" 4]
  by (simp add: start_def TimerModel_init_def)

text \<open>
  C9. \<open>start\<close> on a paused model keeps the accumulated seconds: it sets the start
  instant and the state \<^verbatim>\<open>RUNNING\<close>, exactly as \<open>resume\<close> does. On an idle or a
  finished model it first zeroes the accumulated seconds.
\<close>

theorem start_paused_keeps_accumulation:
  "(state m = PAUSED \<longrightarrow>
      start now m = m\<lparr>start_perf := Some now, state := RUNNING\<rparr> \<and>
      start now m = resume now m \<and>
      accumulated_elapsed (start now m) = accumulated_elapsed m) \<and>
   (state m = IDLE \<or> state m = FINISHED \<longrightarrow>
      start now m =
        m\<lparr>accumulated_elapsed := 0, start_perf := Some now, state := RUNNING\<rparr>)"
  by (simp add: start_def resume_def Let_def)

theorem start_paused_keeps_accumulation_witness:
  "state (pause 3 (start 0 TimerModel_init)) = PAUSED \<and>
   start 5 (pause 3 (start 0 TimerModel_init)) =
     \<lparr>mode = UP, state = RUNNING, target_seconds = 300, start_perf = Some 5,
      accumulated_elapsed = 3\<rparr> \<and>
   state (reset (pause 3 (start 0 TimerModel_init))\<lparr>accumulated_elapsed := 3\<rparr>) = IDLE \<and>
   start 5 (reset (pause 3 (start 0 TimerModel_init))\<lparr>accumulated_elapsed := 3\<rparr>) =
     \<lparr>mode = UP, state = RUNNING, target_seconds = 300, start_perf = Some 5,
      accumulated_elapsed = 0\<rparr>"
  using start_paused_keeps_accumulation [of "pause 3 (start 0 TimerModel_init)" 5]
    start_paused_keeps_accumulation
      [of "reset (pause 3 (start 0 TimerModel_init))\<lparr>accumulated_elapsed := 3\<rparr>" 5]
  by (simp add: timer_defs TimerModel_init_def)

text \<open>
  C10. \<open>start\<close>, \<open>pause\<close>, \<open>resume\<close>, \<open>reset\<close> and \<open>snapshot\<close> keep the mode and the
  target; \<open>set_mode\<close> keeps the target and \<open>set_target_seconds\<close> keeps the mode.
\<close>

theorem mode_and_target_frame:
  "mode (start now m) = mode m \<and> target_seconds (start now m) = target_seconds m \<and>
   mode (pause now m) = mode m \<and> target_seconds (pause now m) = target_seconds m \<and>
   mode (resume now m) = mode m \<and> target_seconds (resume now m) = target_seconds m \<and>
   mode (reset m) = mode m \<and> target_seconds (reset m) = target_seconds m \<and>
   mode (fst (snapshot now m)) = mode m \<and>
   target_seconds (fst (snapshot now m)) = target_seconds m \<and>
   target_seconds (set_mode md m) = target_seconds m \<and>
   mode (set_target_seconds n m) = mode m"
  by (simp add: timer_defs Let_def split: option.split)

text \<open>
  C3. The snapshot's remaining seconds are \<open>None\<close> in mode \<^verbatim>\<open>UP\<close>, and in mode
  \<^verbatim>\<open>DOWN\<close> they are the target minus the snapshot's elapsed seconds, clamped at
  zero (so zero when the two are equal). In mode \<^verbatim>\<open>UP\<close> the model is returned
  unchanged.
\<close>

theorem snapshot_remaining_seconds:
  "(mode m = UP \<longrightarrow>
      remaining_seconds (snd (snapshot now m)) = None \<and> fst (snapshot now m) = m) \<and>
   (mode m = DOWN \<longrightarrow>
      remaining_seconds (snd (snapshot now m)) =
        Some (max 0 (real_of_int (target_seconds m)
                      - elapsed_seconds (snd (snapshot now m)))))"
  by (cases "mode m") (simp_all add: snapshot_def Let_def max_def)

theorem snapshot_remaining_seconds_witness:
  "mode (start 0 TimerModel_init) = UP \<and>
   snapshot 9 (start 0 TimerModel_init) =
     (start 0 TimerModel_init,
      \<lparr>snap_mode = UP, snap_state = RUNNING, elapsed_seconds = 9,
       remaining_seconds = None\<rparr>) \<and>
   mode (start 0 (set_mode DOWN TimerModel_init)) = DOWN \<and>
   elapsed_seconds (snd (snapshot 300 (start 0 (set_mode DOWN TimerModel_init)))) = 300 \<and>
   remaining_seconds (snd (snapshot 300 (start 0 (set_mode DOWN TimerModel_init)))) = Some 0 \<and>
   remaining_seconds (snd (snapshot 120 (start 0 (set_mode DOWN TimerModel_init)))) = Some 180"
  using snapshot_remaining_seconds [of "start 0 TimerModel_init" 9]
    snapshot_remaining_seconds [of "start 0 (set_mode DOWN TimerModel_init)" 300]
    snapshot_remaining_seconds [of "start 0 (set_mode DOWN TimerModel_init)" 120]
  by (simp add: timer_defs TimerModel_init_def)

subsection \<open>The start instant is set exactly while running\<close>

lemma run_append: "run (xs @ ys) m = run ys (run xs m)"
  by (induction xs arbitrary: m) simp_all

lemma start_iff_running_step:
  "start_iff_running m \<Longrightarrow> start_iff_running (apply_op c m)"
  by (cases c)
     (auto simp add: start_iff_running_def timer_defs Let_def split: option.splits)

lemma start_iff_running_run:
  "start_iff_running m \<Longrightarrow> start_iff_running (run cs m)"
  by (induction cs arbitrary: m) (simp_all add: start_iff_running_step)

text \<open>
  C4. The start instant is set if and only if the state is \<^verbatim>\<open>RUNNING\<close>: this holds
  of the initial model, each of the seven operations preserves it for every argument,
  and so it holds after every sequence of calls.
\<close>

theorem start_instant_iff_running:
  "start_iff_running TimerModel_init \<and>
   (start_iff_running m \<longrightarrow>
      start_iff_running (set_mode md m) \<and>
      start_iff_running (set_target_seconds n m) \<and>
      start_iff_running (start now m) \<and>
      start_iff_running (pause now m) \<and>
      start_iff_running (resume now m) \<and>
      start_iff_running (reset m) \<and>
      start_iff_running (fst (snapshot now m))) \<and>
   start_iff_running (run cs TimerModel_init)"
proof -
  have init: "start_iff_running TimerModel_init"
    by (simp add: start_iff_running_def TimerModel_init_def)
  have step: "start_iff_running (apply_op c m)" if "start_iff_running m" for c
    using that by (rule start_iff_running_step)
  have "start_iff_running (run cs TimerModel_init)"
    using init by (rule start_iff_running_run)
  with init step [of "SetMode md"] step [of "SetTargetSeconds n"] step [of "Start now"]
    step [of "Pause now"] step [of "Resume now"] step [of Reset] step [of "Snapshot now"]
  show ?thesis by simp
qed

theorem start_instant_iff_running_witness:
  "start_iff_running (start 0 (set_target_seconds 5 (set_mode DOWN TimerModel_init))) \<and>
   fst (snapshot 6 (start 0 (set_target_seconds 5 (set_mode DOWN TimerModel_init)))) =
     \<lparr>mode = DOWN, state = FINISHED, target_seconds = 5, start_perf = None,
      accumulated_elapsed = 0\<rparr> \<and>
   start_iff_running
     (fst (snapshot 6 (start 0 (set_target_seconds 5 (set_mode DOWN TimerModel_init))))) \<and>
   start_iff_running
     (pause 2 (start 0 (set_target_seconds 5 (set_mode DOWN TimerModel_init))))"
  using start_instant_iff_running
    [of "start 0 (set_target_seconds 5 (set_mode DOWN TimerModel_init))" DOWN 0 2 "[]"]
    start_instant_iff_running
    [of "start 0 (set_target_seconds 5 (set_mode DOWN TimerModel_init))" DOWN 0 6 "[]"]
  by (simp add: timer_defs start_iff_running_def TimerModel_init_def)

subsection \<open>Entering the finished state\<close>

lemma finished_step:
  assumes "state m \<noteq> FINISHED" and "state (apply_op c m) = FINISHED"
  shows "\<exists>now. c = Snapshot now \<and> state m = RUNNING \<and> mode m = DOWN \<and>
           real_of_int (target_seconds m) - elapsed_at now m \<le> 0"
  using assms
  by (cases c; cases "mode m")
     (auto simp add: timer_defs Let_def split: if_splits option.splits)

text \<open>
  C5. The initial state is not \<^verbatim>\<open>FINISHED\<close>, and a call that takes the model from
  another state to \<^verbatim>\<open>FINISHED\<close> is a snapshot made in state \<^verbatim>\<open>RUNNING\<close> and mode
  \<^verbatim>\<open>DOWN\<close> whose remaining time is at most zero. So whenever a sequence of calls
  from the initial model ends in \<^verbatim>\<open>FINISHED\<close>, it contains such a snapshot.
\<close>

theorem finished_only_by_countdown_snapshot:
  "state TimerModel_init \<noteq> FINISHED \<and>
   (state m \<noteq> FINISHED \<and> state (apply_op c m) = FINISHED \<longrightarrow>
      (\<exists>now. c = Snapshot now \<and> state m = RUNNING \<and> mode m = DOWN \<and>
         real_of_int (target_seconds m) - elapsed_at now m \<le> 0)) \<and>
   (state (run cs TimerModel_init) = FINISHED \<longrightarrow>
      (\<exists>pre now post. cs = pre @ Snapshot now # post \<and>
         state (run pre TimerModel_init) = RUNNING \<and>
         mode (run pre TimerModel_init) = DOWN \<and>
         real_of_int (target_seconds (run pre TimerModel_init))
           - elapsed_at now (run pre TimerModel_init) \<le> 0))"
proof (intro conjI impI)
  show init: "state TimerModel_init \<noteq> FINISHED"
    by (simp add: TimerModel_init_def)
  show "\<exists>now. c = Snapshot now \<and> state m = RUNNING \<and> mode m = DOWN \<and>
          real_of_int (target_seconds m) - elapsed_at now m \<le> 0"
    if "state m \<noteq> FINISHED \<and> state (apply_op c m) = FINISHED"
    using that finished_step by blast
  show "\<exists>pre now post. cs = pre @ Snapshot now # post \<and>
          state (run pre TimerModel_init) = RUNNING \<and>
          mode (run pre TimerModel_init) = DOWN \<and>
          real_of_int (target_seconds (run pre TimerModel_init))
            - elapsed_at now (run pre TimerModel_init) \<le> 0"
    if "state (run cs TimerModel_init) = FINISHED"
    using that
  proof (induction cs rule: rev_induct)
    case Nil
    with init show ?case by simp
  next
    case (snoc c cs)
    let ?m = "run cs TimerModel_init"
    from snoc.prems have fin: "state (apply_op c ?m) = FINISHED"
      by (simp add: run_append)
    show ?case
    proof (cases "state ?m = FINISHED")
      case True
      from snoc.IH [OF True] obtain pre now post where
        "cs = pre @ Snapshot now # post"
        "state (run pre TimerModel_init) = RUNNING"
        "mode (run pre TimerModel_init) = DOWN"
        "real_of_int (target_seconds (run pre TimerModel_init))
           - elapsed_at now (run pre TimerModel_init) \<le> 0"
        by blast
      then have "cs @ [c] = pre @ Snapshot now # (post @ [c]) \<and>
          state (run pre TimerModel_init) = RUNNING \<and>
          mode (run pre TimerModel_init) = DOWN \<and>
          real_of_int (target_seconds (run pre TimerModel_init))
            - elapsed_at now (run pre TimerModel_init) \<le> 0"
        by simp
      then show ?thesis by blast
    next
      case False
      from finished_step [OF False fin] obtain now where
        "c = Snapshot now" "state ?m = RUNNING" "mode ?m = DOWN"
        "real_of_int (target_seconds ?m) - elapsed_at now ?m \<le> 0"
        by blast
      then have "cs @ [c] = cs @ Snapshot now # [] \<and>
          state ?m = RUNNING \<and> mode ?m = DOWN \<and>
          real_of_int (target_seconds ?m) - elapsed_at now ?m \<le> 0"
        by simp
      then show ?thesis by blast
    qed
  qed
qed

theorem finished_only_by_countdown_snapshot_witness:
  "state (start 0 (set_target_seconds 5 (set_mode DOWN TimerModel_init))) \<noteq> FINISHED \<and>
   state (apply_op (Snapshot 5)
            (start 0 (set_target_seconds 5 (set_mode DOWN TimerModel_init)))) = FINISHED \<and>
   state (run [SetMode DOWN, SetTargetSeconds 5, Start 0, Snapshot 5] TimerModel_init)
     = FINISHED \<and>
   (\<exists>now. Snapshot 5 = Snapshot now \<and>
      real_of_int (target_seconds
          (start 0 (set_target_seconds 5 (set_mode DOWN TimerModel_init))))
        - elapsed_at now (start 0 (set_target_seconds 5 (set_mode DOWN TimerModel_init)))
        \<le> 0) \<and>
   (\<exists>pre now post.
      [SetMode DOWN, SetTargetSeconds 5, Start 0, Snapshot 5] = pre @ Snapshot now # post \<and>
      state (run pre TimerModel_init) = RUNNING)"
proof -
  let ?m = "start 0 (set_target_seconds 5 (set_mode DOWN TimerModel_init))"
  let ?cs = "[SetMode DOWN, SetTargetSeconds 5, Start 0, Snapshot 5]"
  have a: "state ?m \<noteq> FINISHED"
    by (simp add: timer_defs TimerModel_init_def)
  have b: "state (apply_op (Snapshot 5) ?m) = FINISHED"
    by (simp add: timer_defs TimerModel_init_def)
  have c: "state (run ?cs TimerModel_init) = FINISHED"
    by (simp add: timer_defs TimerModel_init_def)
  from a b c finished_only_by_countdown_snapshot [of ?m "Snapshot 5" ?cs]
  show ?thesis by blast
qed

subsection \<open>Snapshots after the countdown has finished\<close>

text \<open>
  The snapshot that finishes a countdown clears the start instant without adding the
  running interval to the accumulated seconds, unlike \<open>pause\<close>. A later snapshot
  therefore reports the accumulated seconds of before the last run as elapsed, and
  the target minus these as remaining.
\<close>

lemma snapshot_after_auto_finish:
  assumes "mode m = DOWN" and "state m = RUNNING"
    and "real_of_int (target_seconds m) - elapsed_at now m \<le> 0"
  shows "fst (snapshot now m) = m\<lparr>state := FINISHED, start_perf := None\<rparr>"
    and "elapsed_seconds (snd (snapshot later (fst (snapshot now m)))) = accumulated_elapsed m"
    and "remaining_seconds (snd (snapshot later (fst (snapshot now m)))) =
           Some (max 0 (real_of_int (target_seconds m) - accumulated_elapsed m))"
  using assms by (simp_all add: snapshot_def elapsed_at_def Let_def max_def)

text \<open>
  C2. With mode \<^verbatim>\<open>DOWN\<close>, target 5 and \<open>start 0\<close>, the snapshot at 5 reports 5
  elapsed and 0 remaining, moves the state from \<^verbatim>\<open>RUNNING\<close> to \<^verbatim>\<open>FINISHED\<close> and
  clears the start instant. The snapshot at 10 that follows reports state
  \<^verbatim>\<open>FINISHED\<close> with 0 elapsed and 5 remaining: the values are not frozen.
\<close>

theorem snapshot_after_finish_not_frozen:
  "state (start 0 (set_target_seconds 5 (set_mode DOWN TimerModel_init))) = RUNNING \<and>
   snapshot 5 (start 0 (set_target_seconds 5 (set_mode DOWN TimerModel_init))) =
     (\<lparr>mode = DOWN, state = FINISHED, target_seconds = 5, start_perf = None,
       accumulated_elapsed = 0\<rparr>,
      \<lparr>snap_mode = DOWN, snap_state = FINISHED, elapsed_seconds = 5,
       remaining_seconds = Some 0\<rparr>) \<and>
   snd (snapshot 10
          (fst (snapshot 5
                 (start 0 (set_target_seconds 5 (set_mode DOWN TimerModel_init)))))) =
     \<lparr>snap_mode = DOWN, snap_state = FINISHED, elapsed_seconds = 0,
      remaining_seconds = Some 5\<rparr>"
  by (simp add: timer_defs TimerModel_init_def)

subsection \<open>Elapsed seconds and the time spent running\<close>

lemma snapshot_elapsed: "elapsed_seconds (snd (snapshot now m)) = elapsed_at now m"
  by (simp add: snapshot_def Let_def)

lemma snapshot_keeps_model:
  "state (fst (snapshot now m)) \<noteq> FINISHED \<Longrightarrow> fst (snapshot now m) = m"
  by (simp add: snapshot_def Let_def split: if_splits)

lemma fresh_reset: "fresh_or_timing (reset m)"
  by (simp add: fresh_or_timing_def start_iff_running_def reset_def)

text \<open>
  One clock call that does not finish a countdown: the elapsed seconds read at the
  instant of the call grow by the stretch since \<open>t\<close> when the model was running, and
  not at all otherwise.
\<close>

lemma elapsed_step:
  assumes "fresh_or_timing m" and "clock_call c" and "state (apply_op c m) \<noteq> FINISHED"
  shows "elapsed_at (time_of c) (apply_op c m) =
           elapsed_at t m + (if state m = RUNNING then time_of c - t else 0)"
    and "fresh_or_timing (apply_op c m)"
proof -
  show "elapsed_at (time_of c) (apply_op c m) =
           elapsed_at t m + (if state m = RUNNING then time_of c - t else 0)"
  proof (cases c)
    case (Snapshot u)
    with assms(3) have "apply_op c m = m" by (simp add: snapshot_keeps_model)
    with Snapshot assms(1) show ?thesis
      by (auto simp add: fresh_or_timing_def start_iff_running_def elapsed_at_def
          split: option.splits)
  qed (use assms in \<open>auto simp add: fresh_or_timing_def start_iff_running_def elapsed_at_def
        start_def pause_def resume_def Let_def split: option.splits\<close>)
  show "fresh_or_timing (apply_op c m)"
  proof (cases c)
    case (Snapshot u)
    with assms(3) have "apply_op c m = m" by (simp add: snapshot_keeps_model)
    with assms(1) show ?thesis by simp
  qed (use assms in \<open>auto simp add: fresh_or_timing_def start_iff_running_def
        start_def pause_def resume_def Let_def split: option.splits\<close>)
qed

lemma elapsed_running_time:
  assumes "fresh_or_timing m" and "list_all clock_call cs" and "no_auto_finish m cs"
  shows "elapsed_at now (run cs m) = elapsed_at t m + running_time m t cs now"
  using assms
proof (induction cs arbitrary: m t)
  case Nil
  then show ?case
    by (auto simp add: fresh_or_timing_def start_iff_running_def elapsed_at_def
        split: option.splits)
next
  case (Cons c cs)
  from Cons.prems have c: "clock_call c" and nf: "state (apply_op c m) \<noteq> FINISHED"
    and rest: "list_all clock_call cs" "no_auto_finish (apply_op c m) cs"
    by simp_all
  note st = elapsed_step [OF Cons.prems(1) c nf]
  have "elapsed_at now (run cs (apply_op c m)) =
          elapsed_at (time_of c) (apply_op c m)
            + running_time (apply_op c m) (time_of c) cs now"
    using st(2) rest by (rule Cons.IH)
  with st(1) [of t] show ?case by simp
qed

text \<open>In mode \<^verbatim>\<open>UP\<close> no clock call finishes anything.\<close>

lemma up_no_auto_finish:
  assumes "mode m = UP" and "state m \<noteq> FINISHED" and "list_all clock_call cs"
  shows "no_auto_finish m cs"
  using assms
proof (induction cs arbitrary: m)
  case Nil
  show ?case by simp
next
  case (Cons c cs)
  from Cons.prems have "mode (apply_op c m) = UP \<and> state (apply_op c m) \<noteq> FINISHED"
    by (cases c) (auto simp add: timer_defs Let_def split: option.splits)
  with Cons show ?case by simp
qed

lemma run_without_snapshots:
  "no_auto_finish m cs \<Longrightarrow> run (filter (\<lambda>c. \<not> is_snapshot c) cs) m = run cs m"
proof (induction cs arbitrary: m)
  case Nil
  show ?case by simp
next
  case (Cons c cs)
  show ?case
  proof (cases c)
    case (Snapshot u)
    with Cons.prems have "apply_op c m = m" by (simp add: snapshot_keeps_model)
    with Cons Snapshot show ?thesis by simp
  qed (use Cons in simp_all)
qed

text \<open>
  C1, as amended. Take a model just reset (\<open>reset m0\<close>; a \<open>set_mode\<close> to another mode
  ends in the same reset) and any sequence of start, pause, resume and snapshot calls
  in which no snapshot finishes a countdown, which is always so in mode \<^verbatim>\<open>UP\<close>. Then
  the elapsed seconds of a snapshot at \<open>now\<close> are the time the model spent in state
  \<^verbatim>\<open>RUNNING\<close>, and they are the same as for the sequence with its snapshot calls
  removed. The timestamps need not even be ordered. In particular \<open>start 0\<close>,
  \<open>pause 3\<close>, \<open>resume 3\<close>, then a snapshot at 7, reports 7 elapsed seconds.
\<close>

theorem elapsed_is_running_time:
  assumes "list_all clock_call cs"
    and "mode m0 = UP \<or> no_auto_finish (reset m0) cs"
  shows "elapsed_seconds (snd (snapshot now (run cs (reset m0))))
           = running_time (reset m0) t0 cs now \<and>
         elapsed_seconds
             (snd (snapshot now (run (filter (\<lambda>c. \<not> is_snapshot c) cs) (reset m0))))
           = elapsed_seconds (snd (snapshot now (run cs (reset m0)))) \<and>
         elapsed_seconds (snd (snapshot 7 (run [Start 0, Pause 3, Resume 3] (reset m0)))) = 7"
proof -
  have nf: "no_auto_finish (reset m0) cs"
  proof (cases "mode m0 = UP")
    case True
    then have "mode (reset m0) = UP" "state (reset m0) \<noteq> FINISHED"
      by (simp_all add: reset_def)
    then show ?thesis using assms(1) by (rule up_no_auto_finish)
  next
    case False
    with assms(2) show ?thesis by simp
  qed
  have "elapsed_at now (run cs (reset m0))
          = elapsed_at t0 (reset m0) + running_time (reset m0) t0 cs now"
    using fresh_reset assms(1) nf by (rule elapsed_running_time)
  moreover have "elapsed_at t0 (reset m0) = 0"
    by (simp add: elapsed_at_def reset_def)
  moreover have "elapsed_at 7 (run [Start 0, Pause 3, Resume 3] (reset m0)) = 7"
    by (simp add: timer_defs)
  ultimately show ?thesis
    by (simp add: snapshot_elapsed run_without_snapshots [OF nf])
qed

theorem elapsed_is_running_time_witness:
  "list_all clock_call [Start 0, Snapshot 1, Pause 3, Snapshot 3, Resume 3] \<and>
   no_auto_finish (reset (set_mode DOWN TimerModel_init))
     [Start 0, Snapshot 1, Pause 3, Snapshot 3, Resume 3] \<and>
   elapsed_seconds (snd (snapshot 7
       (run [Start 0, Snapshot 1, Pause 3, Snapshot 3, Resume 3]
          (reset (set_mode DOWN TimerModel_init))))) = 7 \<and>
   running_time (reset (set_mode DOWN TimerModel_init)) 0
       [Start 0, Snapshot 1, Pause 3, Snapshot 3, Resume 3] 7 = 7 \<and>
   elapsed_seconds (snd (snapshot 7
       (run [Start 0, Pause 3, Resume 3] (reset (set_mode DOWN TimerModel_init))))) = 7"
proof -
  let ?cs = "[Start 0, Snapshot 1, Pause 3, Snapshot 3, Resume 3]"
  let ?m = "set_mode DOWN TimerModel_init"
  have a: "list_all clock_call ?cs" by simp
  have b: "no_auto_finish (reset ?m) ?cs"
    by (simp add: timer_defs TimerModel_init_def)
  have c: "running_time (reset ?m) 0 ?cs 7 = 7"
    by (simp add: timer_defs TimerModel_init_def)
  from a b c elapsed_is_running_time [of ?cs ?m 7 0] show ?thesis
    by simp
qed

text \<open>
  C1 as stated fails in mode \<^verbatim>\<open>DOWN\<close>. After the mode switch (target 300), \<open>start 0\<close>
  and a snapshot at 300 finish the countdown; the snapshot at 301 then reports 0
  elapsed seconds, although the model was running for 300, and without the snapshot
  at 300 it reports 301.
\<close>

theorem elapsed_depends_on_polling_counterexample:
  "list_all clock_call [Start 0, Snapshot 300] \<and>
   set_mode DOWN TimerModel_init = reset (set_mode DOWN TimerModel_init) \<and>
   elapsed_seconds (snd (snapshot 301
       (run [Start 0, Snapshot 300] (set_mode DOWN TimerModel_init)))) = 0 \<and>
   running_time (set_mode DOWN TimerModel_init) 0 [Start 0, Snapshot 300] 301 = 300 \<and>
   elapsed_seconds (snd (snapshot 301
       (run [Start 0] (set_mode DOWN TimerModel_init)))) = 301"
  by (simp add: timer_defs TimerModel_init_def)

end
